theory Spec2Isabelle
  imports Main
begin

section \<open>JavaScript values\<close>

text \<open>
  The values that flow through \<^verbatim>\<open>src/index.ts\<close>: tool arguments decoded from the
  transport, results handed back by the \<^verbatim>\<open>zulip-js\<close> client, and values thrown.
  \<open>JNum n\<close> stands for the number whose value is the integer \<open>n\<close> (a safe integer,
  \<open>\<bar>n\<bar> < 2 ^ 53\<close>); numbers with a fraction, infinities and negative zero are not
  represented. \<open>JNaN\<close> is there because the arithmetic of the source can produce it.
  An object is a plain object, given by the list of its own properties in property order; a
  property that is not in the list and that \<^verbatim>\<open>Object.prototype\<close> does not provide reads as
  \<open>JUndefined\<close>. No value is callable. Characters are the code units below 256.
\<close>

datatype jsval =
    JUndefined
  | JNull
  | JBool bool
  | JNum int
  | JNaN
  | JStr string
  | JArr "jsval list"
  | JObj "(string \<times> jsval) list"

text \<open>A thrown value: an \<^verbatim>\<open>Error\<close> object with its message, or any other value.\<close>

datatype thrown = JsError string | JsValue jsval

datatype outcome = Returns jsval | Throws thrown

text \<open>\<^verbatim>\<open>if (v)\<close>, \<^verbatim>\<open>!v\<close>: ToBoolean.\<close>

fun truthy :: "jsval \<Rightarrow> bool" where
  "truthy JUndefined = False"
| "truthy JNull = False"
| "truthy (JBool b) = b"
| "truthy (JNum n) = (n \<noteq> 0)"
| "truthy JNaN = False"
| "truthy (JStr s) = (s \<noteq> [])"
| "truthy (JArr xs) = True"
| "truthy (JObj kvs) = True"

text \<open>\<^verbatim>\<open>a === b\<close>. Two arrays or objects are equal only when they are the same
  reference; a value of the remote and a value of the request never are.\<close>

fun strict_equals :: "jsval \<Rightarrow> jsval \<Rightarrow> bool" where
  "strict_equals JUndefined JUndefined = True"
| "strict_equals JNull JNull = True"
| "strict_equals (JBool a) (JBool b) = (a = b)"
| "strict_equals (JNum a) (JNum b) = (a = b)"
| "strict_equals (JStr a) (JStr b) = (a = b)"
| "strict_equals a b = False"

text \<open>A default parameter value (\<^verbatim>\<open>limit = 20\<close>) replaces \<^verbatim>\<open>undefined\<close> only.\<close>

definition default_param :: "jsval \<Rightarrow> jsval \<Rightarrow> jsval" where
  "default_param v d = (if v = JUndefined then d else v)"

text \<open>\<^verbatim>\<open>args.k\<close> on the argument object.\<close>

definition own_prop :: "(string \<times> jsval) list \<Rightarrow> string \<Rightarrow> jsval" where
  "own_prop kvs k = (case map_of kvs k of None \<Rightarrow> JUndefined | Some v \<Rightarrow> v)"

definition squote :: char where
  "squote = CHR 0x27"

definition dquote :: char where
  "dquote = CHR 0x22"

definition backslash :: char where
  "backslash = CHR 0x5C"

text \<open>
  \<^verbatim>\<open>v.k\<close> on any value, for the property names the source reads from remote data
  (\<^verbatim>\<open>streams\<close>, \<^verbatim>\<open>name\<close>), none of which a prototype provides. Reading a property of
  \<^verbatim>\<open>undefined\<close> or \<^verbatim>\<open>null\<close> throws a TypeError (message as Node prints it).
\<close>

fun get_prop :: "jsval \<Rightarrow> string \<Rightarrow> thrown + jsval" where
  "get_prop JUndefined k =
     Inl (JsError (''Cannot read properties of undefined (reading '' @ [squote] @ k @ [squote] @ '')''))"
| "get_prop JNull k =
     Inl (JsError (''Cannot read properties of null (reading '' @ [squote] @ k @ [squote] @ '')''))"
| "get_prop (JObj kvs) k = Inr (own_prop kvs k)"
| "get_prop v k = Inr JUndefined"

subsection \<open>Number to string\<close>

definition digit_char :: "nat \<Rightarrow> char" where
  "digit_char d = char_of (48 + d)"

fun show_nat :: "nat \<Rightarrow> string" where
  "show_nat n = (if n < 10 then [digit_char n] else show_nat (n div 10) @ [digit_char (n mod 10)])"

declare show_nat.simps [simp del]

definition show_int :: "int \<Rightarrow> string" where
  "show_int i = (if i < 0 then CHR ''-'' # show_nat (nat (- i)) else show_nat (nat i))"

subsection \<open>ToString\<close>

text \<open>
  Number::toString on an integer: the decimal digits for a safe integer. Beyond the safe
  range JavaScript rounds the digits or writes an exponent; that part is a parameter
  \<open>big\<close>.
\<close>

definition Number_toString :: "(int \<Rightarrow> string) \<Rightarrow> int \<Rightarrow> string" where
  "Number_toString big n = (if \<bar>n\<bar> \<le> 9007199254740991 then show_int n else big n)"

text \<open>The TypeError of OrdinaryToPrimitive (message as Node prints it).\<close>

definition cannot_convert :: thrown where
  "cannot_convert = JsError ''Cannot convert object to primitive value''"

text \<open>
  \<^verbatim>\<open>String(v)\<close> and the conversion inside a template literal; \<open>Inl\<close> is a TypeError
  thrown by the conversion. An array joins its elements with commas, \<^verbatim>\<open>null\<close> and
  \<^verbatim>\<open>undefined\<close> elements giving the empty string. A plain object is converted by the
  \<^verbatim>\<open>toString\<close> it inherits, which answers \<^verbatim>\<open>[object Object]\<close>; when it has an own
  property \<^verbatim>\<open>toString\<close>, that value is not callable (no value represented here is), the
  inherited \<^verbatim>\<open>valueOf\<close> or an own one gives no primitive either, and the conversion throws.
\<close>

fun js_String :: "(int \<Rightarrow> string) \<Rightarrow> jsval \<Rightarrow> thrown + string"
  and join_elements :: "(int \<Rightarrow> string) \<Rightarrow> jsval list \<Rightarrow> thrown + string"
  and join_element :: "(int \<Rightarrow> string) \<Rightarrow> jsval \<Rightarrow> thrown + string" where
  "js_String big JUndefined = Inr ''undefined''"
| "js_String big JNull = Inr ''null''"
| "js_String big (JBool b) = Inr (if b then ''true'' else ''false'')"
| "js_String big (JNum n) = Inr (Number_toString big n)"
| "js_String big JNaN = Inr ''NaN''"
| "js_String big (JStr s) = Inr s"
| "js_String big (JArr xs) = join_elements big xs"
| "js_String big (JObj kvs) =
     (if map_of kvs ''toString'' = None then Inr ''[object Object]'' else Inl cannot_convert)"
| "join_elements big [] = Inr []"
| "join_elements big (x # xs) =
     (case join_element big x of
        Inl err \<Rightarrow> Inl err
      | Inr s \<Rightarrow>
          if xs = [] then Inr s
          else (case join_elements big xs of
                  Inl err \<Rightarrow> Inl err
                | Inr t \<Rightarrow> Inr (s @ '','' @ t)))"
| "join_element big x = (if x = JUndefined \<or> x = JNull then Inr [] else js_String big x)"

subsection \<open>ToNumber and Math.floor(limit / 2)\<close>

text \<open>
  ToNumber; \<open>Inl\<close> is a TypeError thrown by the conversion. The conversion of a string to a
  number is a parameter \<open>str2num\<close> (JavaScript's StringToNumber, whose results need not be
  integers). An array or object is first converted to a primitive, which is its string (the
  inherited \<^verbatim>\<open>valueOf\<close> gives the object back), and throws where \<^verbatim>\<open>String\<close> throws; the
  string of a plain object is not a number.
\<close>

fun ToNumber :: "(int \<Rightarrow> string) \<Rightarrow> (string \<Rightarrow> jsval) \<Rightarrow> jsval \<Rightarrow> thrown + jsval" where
  "ToNumber big str2num JUndefined = Inr JNaN"
| "ToNumber big str2num JNull = Inr (JNum 0)"
| "ToNumber big str2num (JBool b) = Inr (JNum (if b then 1 else 0))"
| "ToNumber big str2num (JNum n) = Inr (JNum n)"
| "ToNumber big str2num JNaN = Inr JNaN"
| "ToNumber big str2num (JStr s) = Inr (str2num s)"
| "ToNumber big str2num (JArr xs) =
     (case js_String big (JArr xs) of Inl err \<Rightarrow> Inl err | Inr s \<Rightarrow> Inr (str2num s))"
| "ToNumber big str2num (JObj kvs) =
     (case js_String big (JObj kvs) of Inl err \<Rightarrow> Inl err | Inr s \<Rightarrow> Inr JNaN)"

text \<open>\<^verbatim>\<open>Math.floor(limit / 2)\<close>: on an integer, division by two rounded towards minus
  infinity, which is \<open>div\<close> on \<open>int\<close>.\<close>

definition floor_half :: "(int \<Rightarrow> string) \<Rightarrow> (string \<Rightarrow> jsval) \<Rightarrow> jsval \<Rightarrow> thrown + jsval" where
  "floor_half big str2num v =
     (case ToNumber big str2num v of
        Inl err \<Rightarrow> Inl err
      | Inr (JNum n) \<Rightarrow> Inr (JNum (n div 2))
      | Inr _ \<Rightarrow> Inr JNaN)"

subsection \<open>JSON.stringify\<close>

definition hex_digit :: "nat \<Rightarrow> char" where
  "hex_digit d = (if d < 10 then char_of (48 + d) else char_of (87 + d))"

text \<open>QuoteJSONString, one code unit at a time.\<close>

definition quote_char :: "char \<Rightarrow> string" where
  "quote_char c =
     (if c = CHR 0x08 then [backslash, CHR ''b'']
      else if c = CHR 0x09 then [backslash, CHR ''t'']
      else if c = CHR 0x0A then [backslash, CHR ''n'']
      else if c = CHR 0x0C then [backslash, CHR ''f'']
      else if c = CHR 0x0D then [backslash, CHR ''r'']
      else if c = dquote then [backslash, dquote]
      else if c = backslash then [backslash, backslash]
      else if of_char c < (32::nat)
        then [backslash, CHR ''u'', CHR ''0'', CHR ''0'',
              hex_digit (of_char c div 16), hex_digit (of_char c mod 16)]
      else [c])"

definition quote :: "string \<Rightarrow> string" where
  "quote s = dquote # concat (map quote_char s) @ [dquote]"

text \<open>
  SerializeJSONProperty for a value that is not \<^verbatim>\<open>undefined\<close> at top level. Inside an
  array \<^verbatim>\<open>undefined\<close> is written \<^verbatim>\<open>null\<close>; inside an object a property whose value is
  \<^verbatim>\<open>undefined\<close> is left out. NaN is written \<^verbatim>\<open>null\<close>. An own property \<^verbatim>\<open>toJSON\<close> is
  a property like any other, since its value is not callable.
\<close>

fun ser :: "jsval \<Rightarrow> string"
  and ser_elements :: "jsval list \<Rightarrow> string"
  and ser_members :: "(string \<times> jsval) list \<Rightarrow> string" where
  "ser JUndefined = ''null''"
| "ser JNull = ''null''"
| "ser (JBool b) = (if b then ''true'' else ''false'')"
| "ser (JNum n) = show_int n"
| "ser JNaN = ''null''"
| "ser (JStr s) = quote s"
| "ser (JArr xs) = ''['' @ ser_elements xs @ '']''"
| "ser (JObj kvs) = ''{'' @ ser_members kvs @ ''}''"
| "ser_elements [] = []"
| "ser_elements (x # xs) = ser x @ (if xs = [] then [] else '','' @ ser_elements xs)"
| "ser_members [] = []"
| "ser_members (kv # kvs) =
     (if snd kv = JUndefined then ser_members kvs
      else quote (fst kv) @ '':'' @ ser (snd kv) @
        (if list_all (\<lambda>m. snd m = JUndefined) kvs then [] else '','' @ ser_members kvs))"

text \<open>\<^verbatim>\<open>JSON.stringify(v)\<close>: \<^verbatim>\<open>undefined\<close> for \<^verbatim>\<open>undefined\<close>, a string otherwise.\<close>

definition JSON_stringify :: "jsval \<Rightarrow> jsval" where
  "JSON_stringify v = (if v = JUndefined then JUndefined else JStr (ser v))"

subsection \<open>JSON.parse\<close>

text \<open>
  JSON.parse on compact JSON text, which is what JSON.stringify writes: no white space
  between tokens. \<open>None\<close> stands for a SyntaxError, and is also the result outside this
  fragment: white space between tokens, and a text whose value is not represented (a number
  with a fraction or an exponent, negative zero, an escape of a code unit above 255).
\<close>

definition is_digit :: "char \<Rightarrow> bool" where
  "is_digit c = (48 \<le> (of_char c :: nat) \<and> (of_char c :: nat) \<le> 57)"

definition digit_val :: "char \<Rightarrow> nat" where
  "digit_val c = of_char c - 48"

definition read_nat :: "string \<Rightarrow> nat" where
  "read_nat ds = foldl (\<lambda>a c. 10 * a + digit_val c) 0 ds"

definition parse_number :: "string \<Rightarrow> (jsval \<times> string) option" where
  "parse_number s =
     (let neg = (s \<noteq> [] \<and> hd s = CHR ''-'');
          s1 = (if neg then tl s else s);
          ds = takeWhile is_digit s1;
          rest = dropWhile is_digit s1
      in if ds = [] then None
         else if 1 < length ds \<and> hd ds = CHR ''0'' then None
         else if rest \<noteq> [] \<and> hd rest \<in> set ''.eE'' then None
         else if neg \<and> read_nat ds = 0 then None
         else Some (JNum (if neg then - int (read_nat ds) else int (read_nat ds)), rest))"

definition hex_val :: "char \<Rightarrow> nat option" where
  "hex_val c =
     (let n = (of_char c :: nat)
      in if 48 \<le> n \<and> n \<le> 57 then Some (n - 48)
         else if 97 \<le> n \<and> n \<le> 102 then Some (n - 87)
         else if 65 \<le> n \<and> n \<le> 70 then Some (n - 55)
         else None)"

text \<open>\<^verbatim>\<open>\uXXXX\<close>: the code unit, when it is below 256.\<close>

definition hex4 :: "char \<Rightarrow> char \<Rightarrow> char \<Rightarrow> char \<Rightarrow> char option" where
  "hex4 h1 h2 h3 h4 =
     (case (hex_val h1, hex_val h2, hex_val h3, hex_val h4) of
        (Some a, Some b, Some c, Some d) \<Rightarrow>
          if a = 0 \<and> b = 0 then Some (char_of (16 * c + d)) else None
      | _ \<Rightarrow> None)"

definition unescape :: "char \<Rightarrow> char option" where
  "unescape d =
     (if d = CHR ''b'' then Some (CHR 0x08)
      else if d = CHR ''t'' then Some (CHR 0x09)
      else if d = CHR ''n'' then Some (CHR 0x0A)
      else if d = CHR ''f'' then Some (CHR 0x0C)
      else if d = CHR ''r'' then Some (CHR 0x0D)
      else if d = dquote then Some dquote
      else if d = backslash then Some backslash
      else if d = CHR ''/'' then Some (CHR ''/'')
      else None)"

definition cons_result :: "'a \<Rightarrow> ('a list \<times> string) option \<Rightarrow> ('a list \<times> string) option" where
  "cons_result x r = (case r of None \<Rightarrow> None | Some (xs, rest) \<Rightarrow> Some (x # xs, rest))"

text \<open>The characters of a string after its opening quote, up to the closing quote.\<close>

fun parse_string_chars :: "string \<Rightarrow> (string \<times> string) option" where
  "parse_string_chars [] = None"
| "parse_string_chars (c # cs) =
     (if c = dquote then Some ([], cs)
      else if c = backslash then
        (case cs of
           [] \<Rightarrow> None
         | d # ds \<Rightarrow>
             if d = CHR ''u'' then
               (case ds of
                  h1 # h2 # h3 # h4 # r \<Rightarrow>
                    (case hex4 h1 h2 h3 h4 of
                       None \<Rightarrow> None
                     | Some ch \<Rightarrow> cons_result ch (parse_string_chars r))
                | _ \<Rightarrow> None)
             else
               (case unescape d of
                  None \<Rightarrow> None
                | Some ch \<Rightarrow> cons_result ch (parse_string_chars ds)))
      else if of_char c < (32::nat) then None
      else cons_result c (parse_string_chars cs))"

definition parse_literal :: "string \<Rightarrow> jsval \<Rightarrow> string \<Rightarrow> (jsval \<times> string) option" where
  "parse_literal lit v s =
     (if take (length lit) s = lit then Some (v, drop (length lit) s) else None)"

text \<open>The fuel bounds the number of nested calls; the length of the text is enough.\<close>

fun parse_value :: "nat \<Rightarrow> string \<Rightarrow> (jsval \<times> string) option"
  and parse_elements :: "nat \<Rightarrow> string \<Rightarrow> (jsval list \<times> string) option"
  and parse_members :: "nat \<Rightarrow> string \<Rightarrow> ((string \<times> jsval) list \<times> string) option" where
  "parse_value 0 s = None"
| "parse_value (Suc n) s =
     (case s of
        [] \<Rightarrow> None
      | c # cs \<Rightarrow>
          if c = CHR ''n'' then parse_literal ''null'' JNull s
          else if c = CHR ''t'' then parse_literal ''true'' (JBool True) s
          else if c = CHR ''f'' then parse_literal ''false'' (JBool False) s
          else if c = dquote then
            (case parse_string_chars cs of
               None \<Rightarrow> None
             | Some (str, rest) \<Rightarrow> Some (JStr str, rest))
          else if c = CHR ''['' then
            (if cs \<noteq> [] \<and> hd cs = CHR '']'' then Some (JArr [], tl cs)
             else (case parse_elements n cs of
                     None \<Rightarrow> None
                   | Some (xs, rest) \<Rightarrow> Some (JArr xs, rest)))
          else if c = CHR ''{'' then
            (if cs \<noteq> [] \<and> hd cs = CHR ''}'' then Some (JObj [], tl cs)
             else (case parse_members n cs of
                     None \<Rightarrow> None
                   | Some (kvs, rest) \<Rightarrow> Some (JObj kvs, rest)))
          else parse_number s)"
| "parse_elements 0 s = None"
| "parse_elements (Suc n) s =
     (case parse_value n s of
        None \<Rightarrow> None
      | Some (x, rest) \<Rightarrow>
          if rest \<noteq> [] \<and> hd rest = CHR '']'' then Some ([x], tl rest)
          else if rest \<noteq> [] \<and> hd rest = CHR '','' then cons_result x (parse_elements n (tl rest))
          else None)"
| "parse_members 0 s = None"
| "parse_members (Suc n) s =
     (if s \<noteq> [] \<and> hd s = dquote then
        (case parse_string_chars (tl s) of
           None \<Rightarrow> None
         | Some (k, r1) \<Rightarrow>
             if r1 \<noteq> [] \<and> hd r1 = CHR '':'' then
               (case parse_value n (tl r1) of
                  None \<Rightarrow> None
                | Some (v, rest) \<Rightarrow>
                    if rest \<noteq> [] \<and> hd rest = CHR ''}'' then Some ([(k, v)], tl rest)
                    else if rest \<noteq> [] \<and> hd rest = CHR '',''
                      then cons_result (k, v) (parse_members n (tl rest))
                    else None)
             else None)
      else None)"

definition JSON_parse :: "string \<Rightarrow> jsval option" where
  "JSON_parse s =
     (case parse_value (length s) s of
        None \<Rightarrow> None
      | Some (v, rest) \<Rightarrow> if rest = [] then Some v else None)"

text \<open>
  The values that JSON text denotes, as \<^verbatim>\<open>zulip-js\<close> decodes them from the body of a
  reply: no \<^verbatim>\<open>undefined\<close> and no NaN anywhere, numbers that are safe integers, objects
  with distinct property names.
\<close>

fun json_value :: "jsval \<Rightarrow> bool"
  and json_elements :: "jsval list \<Rightarrow> bool"
  and json_members :: "(string \<times> jsval) list \<Rightarrow> bool" where
  "json_value JUndefined = False"
| "json_value JNull = True"
| "json_value (JBool b) = True"
| "json_value (JNum n) = (\<bar>n\<bar> \<le> 9007199254740991)"
| "json_value JNaN = False"
| "json_value (JStr s) = True"
| "json_value (JArr xs) = json_elements xs"
| "json_value (JObj kvs) = (json_members kvs \<and> distinct (map fst kvs))"
| "json_elements [] = True"
| "json_elements (x # xs) = (json_value x \<and> json_elements xs)"
| "json_members [] = True"
| "json_members (kv # kvs) = (json_value (snd kv) \<and> json_members kvs)"

text \<open>What follows a value inside a text: nothing, or a comma or closing bracket.\<close>

definition delimited :: "string \<Rightarrow> bool" where
  "delimited rest = (rest = [] \<or> hd rest \<in> set '',]}'')"

section \<open>The Zulip client\<close>

text \<open>
  The resources of the \<^verbatim>\<open>zulip-js\<close> client that \<^verbatim>\<open>ZulipClient\<close> calls. A remote call is
  the resource method with its argument list. The client is a parameter: for each call it
  either returns a value or throws. The connection is taken as established
  (\<^verbatim>\<open>this.client\<close> is set); \<^verbatim>\<open>console.error\<close> logging is left out. The two
  conversions of the language that are not written out here are parameters beside it.
\<close>

datatype endpoint =
    streams_retrieve
  | messages_send
  | reactions_add
  | messages_retrieve
  | streams_topics_retrieve
  | streams_subscribe
  | users_retrieve

type_synonym remote_call = "endpoint \<times> jsval list"

record env =
  client :: "remote_call \<Rightarrow> outcome"
  StringToNumber :: "string \<Rightarrow> jsval"
  NumberToString :: "int \<Rightarrow> string"

text \<open>One call of a client method: its outcome and the trace of calls issued.\<close>

definition invoke :: "env \<Rightarrow> endpoint \<Rightarrow> jsval list \<Rightarrow> outcome \<times> remote_call list" where
  "invoke e ep as = (client e (ep, as), [(ep, as)])"

text \<open>Each method of \<^verbatim>\<open>ZulipClient\<close> catches, logs and rethrows: the outcome is unchanged.\<close>

definition getStreams :: "env \<Rightarrow> jsval \<Rightarrow> jsval \<Rightarrow> jsval \<Rightarrow> outcome \<times> remote_call list" where
  "getStreams e includePrivate0 includeWebPublic0 includeSubscribed0 =
     (let includePrivate = default_param includePrivate0 (JBool False);
          includeWebPublic = default_param includeWebPublic0 (JBool True);
          includeSubscribed = default_param includeSubscribed0 (JBool True);
          params =
            (if truthy includePrivate then [(''include_private'', JBool True)] else []) @
            (if \<not> truthy includeWebPublic then [(''include_web_public'', JBool False)] else []) @
            (if \<not> truthy includeSubscribed then [(''include_subscribed'', JBool False)] else [])
      in invoke e streams_retrieve [JObj params])"

definition sendStreamMessage :: "env \<Rightarrow> jsval \<Rightarrow> jsval \<Rightarrow> jsval \<Rightarrow> outcome \<times> remote_call list" where
  "sendStreamMessage e streamName topic content =
     invoke e messages_send
       [JObj [(''to'', streamName), (''type'', JStr ''stream''),
              (''topic'', topic), (''content'', content)]]"

definition sendDirectMessage :: "env \<Rightarrow> jsval \<Rightarrow> jsval \<Rightarrow> outcome \<times> remote_call list" where
  "sendDirectMessage e recipients content =
     invoke e messages_send
       [JObj [(''to'', recipients), (''type'', JStr ''private''), (''content'', content)]]"

definition addReaction :: "env \<Rightarrow> jsval \<Rightarrow> jsval \<Rightarrow> outcome \<times> remote_call list" where
  "addReaction e messageId emojiName =
     invoke e reactions_add [JObj [(''message_id'', messageId), (''emoji_name'', emojiName)]]"

text \<open>\<^verbatim>\<open>xs.find((s) => s.name === streamName)\<close>: the first element that matches,
  \<^verbatim>\<open>undefined\<close> when there is none; reading \<^verbatim>\<open>name\<close> of a null element throws.\<close>

fun array_find :: "jsval list \<Rightarrow> jsval \<Rightarrow> thrown + jsval" where
  "array_find [] streamName = Inr JUndefined"
| "array_find (s # ss) streamName =
     (case get_prop s ''name'' of
        Inl err \<Rightarrow> Inl err
      | Inr nm \<Rightarrow> if strict_equals nm streamName then Inr s else array_find ss streamName)"

text \<open>\<^verbatim>\<open>streamsResponse.streams.find(...)\<close>. Only an array has a \<^verbatim>\<open>find\<close> method among
  the values represented.\<close>

definition streams_find :: "jsval \<Rightarrow> jsval \<Rightarrow> thrown + jsval" where
  "streams_find streamsResponse streamName =
     (case get_prop streamsResponse ''streams'' of
        Inl err \<Rightarrow> Inl err
      | Inr streams \<Rightarrow>
          (case streams of
             JArr xs \<Rightarrow> array_find xs streamName
           | JUndefined \<Rightarrow> (case get_prop JUndefined ''find'' of Inl err \<Rightarrow> Inl err | Inr v \<Rightarrow> Inr v)
           | JNull \<Rightarrow> (case get_prop JNull ''find'' of Inl err \<Rightarrow> Inl err | Inr v \<Rightarrow> Inr v)
           | _ \<Rightarrow> Inl (JsError ''streamsResponse.streams.find is not a function'')))"

text \<open>\<^verbatim>\<open>throw new Error(`Stream "${streamName}" not found`)\<close>: what is thrown is the
  Error, or the TypeError of the conversion of \<^verbatim>\<open>streamName\<close> to a string.\<close>

definition stream_not_found :: "(int \<Rightarrow> string) \<Rightarrow> jsval \<Rightarrow> thrown" where
  "stream_not_found big streamName =
     (case js_String big streamName of
        Inl err \<Rightarrow> err
      | Inr s \<Rightarrow> JsError (''Stream '' @ [dquote] @ s @ [dquote] @ '' not found''))"

definition narrow_of :: "jsval \<Rightarrow> jsval \<Rightarrow> jsval" where
  "narrow_of streamName topic =
     JArr [JObj [(''operator'', JStr ''stream''), (''operand'', streamName)],
           JObj [(''operator'', JStr ''topic''), (''operand'', topic)]]"

definition getMessages :: "env \<Rightarrow> jsval \<Rightarrow> jsval \<Rightarrow> jsval \<Rightarrow> jsval \<Rightarrow> outcome \<times> remote_call list" where
  "getMessages e streamName topic limit0 anchor0 =
     (let limit = default_param limit0 (JNum 20);
          anchor = default_param anchor0 (JStr ''newest'')
      in case getStreams e (JBool True) (JBool True) (JBool True) of
           (Throws err, cs) \<Rightarrow> (Throws err, cs)
         | (Returns streamsResponse, cs) \<Rightarrow>
             (case streams_find streamsResponse streamName of
                Inl err \<Rightarrow> (Throws err, cs)
              | Inr stream \<Rightarrow>
                  if \<not> truthy stream
                  then (Throws (stream_not_found (NumberToString e) streamName), cs)
                  else
                    (case floor_half (NumberToString e) (StringToNumber e) limit of
                       Inl err \<Rightarrow> (Throws err, cs)
                     | Inr num_before \<Rightarrow>
                         (case floor_half (NumberToString e) (StringToNumber e) limit of
                            Inl err \<Rightarrow> (Throws err, cs)
                          | Inr num_after \<Rightarrow>
                              let params = JObj
                                    [(''narrow'', JSON_stringify (narrow_of streamName topic)),
                                     (''num_before'', num_before),
                                     (''num_after'', num_after),
                                     (''anchor'', anchor)]
                              in (case invoke e messages_retrieve [params] of
                                    (out, cs') \<Rightarrow> (out, cs @ cs'))))))"

definition getTopics :: "env \<Rightarrow> jsval \<Rightarrow> outcome \<times> remote_call list" where
  "getTopics e streamId = invoke e streams_topics_retrieve [JObj [(''stream_id'', streamId)]]"

definition subscribeToStream :: "env \<Rightarrow> jsval \<Rightarrow> outcome \<times> remote_call list" where
  "subscribeToStream e streamName =
     invoke e streams_subscribe
       [JObj [(''subscriptions'', JSON_stringify (JArr [JObj [(''name'', streamName)]]))]]"

definition getUsers :: "env \<Rightarrow> outcome \<times> remote_call list" where
  "getUsers e = invoke e users_retrieve []"

section \<open>The CallToolRequest handler\<close>

text \<open>
  \<^verbatim>\<open>request.params\<close>: the tool name, a string, and the argument object, which the
  protocol schema makes either absent or an object (so \<^verbatim>\<open>!request.params.arguments\<close>
  holds exactly when it is absent).
\<close>

record request =
  name :: string
  arguments :: "(string \<times> jsval) list option"

record content_item =
  type :: string
  text' :: jsval

record response =
  content :: "content_item list"

text \<open>\<^verbatim>\<open>{ content: [{ type: "text", text: t }] }\<close>\<close>

definition text_response :: "jsval \<Rightarrow> response" where
  "text_response t = \<lparr>content = [\<lparr>type = ''text'', text' = t\<rparr>]\<rparr>"

text \<open>The tail of every case of the switch: the awaited facade call throws on, or its
  result is returned as the text of the response.\<close>

definition respond :: "outcome \<times> remote_call list \<Rightarrow> (thrown + response) \<times> remote_call list" where
  "respond r =
     (case r of
        (Throws err, cs) \<Rightarrow> (Inl err, cs)
      | (Returns response, cs) \<Rightarrow> (Inr (text_response (JSON_stringify response)), cs))"

definition throw_Error :: "string \<Rightarrow> (thrown + response) \<times> remote_call list" where
  "throw_Error message = (Inl (JsError message), [])"

text \<open>The body of the \<^verbatim>\<open>try\<close> block: \<open>Inl\<close> is a value thrown inside it.\<close>

definition handler_try :: "env \<Rightarrow> request \<Rightarrow> (thrown + response) \<times> remote_call list" where
  "handler_try e request =
     (case arguments request of
        None \<Rightarrow> throw_Error ''No arguments provided''
      | Some args \<Rightarrow>
          if name request = ''zulip_list_channels'' then
            respond (getStreams e (own_prop args ''include_private'')
                       (own_prop args ''include_web_public'') (own_prop args ''include_subscribed''))
          else if name request = ''zulip_post_message'' then
            (if \<not> truthy (own_prop args ''channel_name'') \<or> \<not> truthy (own_prop args ''topic'')
                \<or> \<not> truthy (own_prop args ''content'')
             then throw_Error ''Missing required arguments: channel_name, topic, and content''
             else respond (sendStreamMessage e (own_prop args ''channel_name'')
                             (own_prop args ''topic'') (own_prop args ''content'')))
          else if name request = ''zulip_send_direct_message'' then
            (if \<not> truthy (own_prop args ''recipients'') \<or> \<not> truthy (own_prop args ''content'')
             then throw_Error ''Missing required arguments: recipients and content''
             else respond (sendDirectMessage e (own_prop args ''recipients'') (own_prop args ''content'')))
          else if name request = ''zulip_add_reaction'' then
            (if own_prop args ''message_id'' = JUndefined \<or> \<not> truthy (own_prop args ''emoji_name'')
             then throw_Error ''Missing required arguments: message_id and emoji_name''
             else respond (addReaction e (own_prop args ''message_id'') (own_prop args ''emoji_name'')))
          else if name request = ''zulip_get_channel_history'' then
            (if \<not> truthy (own_prop args ''channel_name'') \<or> \<not> truthy (own_prop args ''topic'')
             then throw_Error ''Missing required arguments: channel_name and topic''
             else respond (getMessages e (own_prop args ''channel_name'') (own_prop args ''topic'')
                             (own_prop args ''limit'') (own_prop args ''anchor'')))
          else if name request = ''zulip_get_topics'' then
            (if own_prop args ''channel_id'' = JUndefined
             then throw_Error ''Missing required argument: channel_id''
             else respond (getTopics e (own_prop args ''channel_id'')))
          else if name request = ''zulip_subscribe_to_channel'' then
            (if \<not> truthy (own_prop args ''channel_name'')
             then throw_Error ''Missing required argument: channel_name''
             else respond (subscribeToStream e (own_prop args ''channel_name'')))
          else if name request = ''zulip_get_users'' then
            respond (getUsers e)
          else throw_Error (''Unknown tool: '' @ name request))"

text \<open>\<^verbatim>\<open>error instanceof Error ? error.message : String(error)\<close>; \<open>Inl\<close> is the
  TypeError that \<^verbatim>\<open>String(error)\<close> throws.\<close>

definition error_message :: "(int \<Rightarrow> string) \<Rightarrow> thrown \<Rightarrow> thrown + string" where
  "error_message big error =
     (case error of JsError message \<Rightarrow> Inr message | JsValue v \<Rightarrow> js_String big v)"

text \<open>\<^verbatim>\<open>{ content: [{ type: "text", text: JSON.stringify({ error: message }) }] }\<close>\<close>

definition error_response :: "string \<Rightarrow> response" where
  "error_response message = text_response (JSON_stringify (JObj [(''error'', JStr message)]))"

text \<open>
  The handler registered for \<^verbatim>\<open>CallToolRequestSchema\<close>: the \<^verbatim>\<open>try\<close> block and its
  \<^verbatim>\<open>catch\<close>. The result is the response returned to the transport, or (\<open>Inl\<close>) a value
  that escapes the handler, together with the remote calls issued. Nothing guards the
  \<^verbatim>\<open>catch\<close> block: what the computation of the message throws escapes.
\<close>

definition handler :: "env \<Rightarrow> request \<Rightarrow> (thrown + response) \<times> remote_call list" where
  "handler e request =
     (case handler_try e request of
        (Inl error, cs) \<Rightarrow>
          (case error_message (NumberToString e) error of
             Inl err \<Rightarrow> (Inl err, cs)
           | Inr message \<Rightarrow> (Inr (error_response message), cs))
      | (Inr r, cs) \<Rightarrow> (Inr r, cs))"

text \<open>The handler registered for \<^verbatim>\<open>ListToolsRequestSchema\<close> returns the eight tool
  descriptors in this order; their names are the catalog.\<close>

definition tool_names :: "string list" where
  "tool_names =
     [''zulip_list_channels'', ''zulip_post_message'', ''zulip_send_direct_message'',
      ''zulip_add_reaction'', ''zulip_get_channel_history'', ''zulip_get_topics'',
      ''zulip_subscribe_to_channel'', ''zulip_get_users'']"

section \<open>Shared facts about the handler\<close>

lemma handler_throw:
  "handler_try e req = throw_Error m \<Longrightarrow> handler e req = (Inr (error_response m), [])"
  by (simp add: handler_def throw_Error_def error_message_def)

lemma handler_respond_invoke:
  "handler_try e req = respond (invoke e ep as) \<Longrightarrow>
   handler e req =
     (case client e (ep, as) of
                 Returns r \<Rightarrow> Inr (text_response (JSON_stringify r))
               | Throws err \<Rightarrow>
                   (case error_message (NumberToString e) err of
                      Inl te \<Rightarrow> Inl te
                    | Inr m \<Rightarrow> Inr (error_response m)),
               [(ep, as)])"
  by (simp add: handler_def respond_def invoke_def split: outcome.splits sum.splits)

lemma error_response_text:
  "error_response m =
     \<lparr>content = [\<lparr>type = ''text'',
        text' = JStr (''{'' @ quote ''error'' @ '':'' @ quote m @ ''}'')\<rparr>]\<rparr>"
  by (simp add: error_response_def text_response_def JSON_stringify_def)

lemma getStreams_all:
  "getStreams e (JBool True) (JBool True) (JBool True) =
     invoke e streams_retrieve [JObj [(''include_private'', JBool True)]]"
  by (simp add: getStreams_def default_param_def)

section \<open>Absent arguments\<close>

text \<open>
  C5. Whatever the tool name, one of the catalog or not, a request without an arguments
  object is answered by the error response with message "No arguments provided", and no
  remote call is issued; the check comes before the switch on the tool name.
\<close>

theorem no_arguments_provided:
  "handler e \<lparr>name = n, arguments = None\<rparr> =
     (Inr (error_response ''No arguments provided''), [])"
  by (rule handler_throw) (simp add: handler_try_def)

theorem no_arguments_provided_witness:
  "list_all (\<lambda>n. handler \<lparr>client = (\<lambda>c. Returns JNull), StringToNumber = (\<lambda>s. JNaN),
      NumberToString = show_int\<rparr>
                    \<lparr>name = n, arguments = None\<rparr> =
                  (Inr \<lparr>content = [\<lparr>type = ''text'',
                          text' = JStr (''{'' @ [dquote] @ ''error'' @ [dquote] @ '':'' @ [dquote]
                                    @ ''No arguments provided'' @ [dquote] @ ''}'')\<rparr>]\<rparr>, []))
     (''nonexistent_tool'' # tool_names)"
  by (simp add: no_arguments_provided error_response_text quote_def quote_char_def
      dquote_def backslash_def tool_names_def)

section \<open>Unknown tools\<close>

text \<open>
  C9. A request with an arguments object whose tool name is none of the eight catalog
  names is answered by the error response with message "Unknown tool: " followed by the
  name, and no remote call is issued.
\<close>

theorem unknown_tool:
  assumes "n \<notin> set tool_names"
  shows "handler e \<lparr>name = n, arguments = Some args\<rparr> =
           (Inr (error_response (''Unknown tool: '' @ n)), [])"
  using assms by (intro handler_throw) (simp add: handler_try_def tool_names_def)

theorem unknown_tool_witness:
  "''nonexistent_tool'' \<notin> set tool_names \<and>
   handler \<lparr>client = (\<lambda>c. Returns JNull), StringToNumber = (\<lambda>s. JNaN),
      NumberToString = show_int\<rparr>
           \<lparr>name = ''nonexistent_tool'', arguments = Some []\<rparr> =
     (Inr (error_response ''Unknown tool: nonexistent_tool''), [])"
proof -
  have h: "''nonexistent_tool'' \<notin> set tool_names"
    by (simp add: tool_names_def)
  show ?thesis
    using h unknown_tool [OF h, of "\<lparr>client = (\<lambda>c. Returns JNull), StringToNumber = (\<lambda>s. JNaN),
      NumberToString = show_int\<rparr>" "[]"]
    by simp
qed

section \<open>Validation of zulip\_add\_reaction\<close>

text \<open>
  C4. The zulip\_add\_reaction request is rejected, with the message naming message\_id and
  emoji\_name and without a remote call, exactly when message\_id reads as undefined or
  emoji\_name is not truthy. Otherwise one reactions-add call is issued with the two
  values, and the result of the handler is made from its outcome (the result as text, or
  what the catch block makes of a thrown value); in particular with message\_id 0.
\<close>

theorem add_reaction_validation:
  fixes e :: env and args :: "(string \<times> jsval) list"
  defines "req \<equiv> \<lparr>name = ''zulip_add_reaction'', arguments = Some args\<rparr>"
  defines "message_id \<equiv> own_prop args ''message_id''"
  defines "emoji_name \<equiv> own_prop args ''emoji_name''"
  defines "call \<equiv> (reactions_add, [JObj [(''message_id'', message_id), (''emoji_name'', emoji_name)]])"
  shows "((handler e req =
            (Inr (error_response ''Missing required arguments: message_id and emoji_name''), []))
          = (message_id = JUndefined \<or> \<not> truthy emoji_name))
       \<and> (message_id \<noteq> JUndefined \<and> truthy emoji_name \<longrightarrow>
            handler e req =
              (case client e call of
                 Returns r \<Rightarrow> Inr (text_response (JSON_stringify r))
               | Throws err \<Rightarrow>
                   (case error_message (NumberToString e) err of
                      Inl te \<Rightarrow> Inl te
                    | Inr m \<Rightarrow> Inr (error_response m)),
               [call]))
       \<and> (message_id = JNum 0 \<and> truthy emoji_name \<longrightarrow>
            snd (handler e req) =
              [(reactions_add, [JObj [(''message_id'', JNum 0), (''emoji_name'', emoji_name)]])])"
proof -
  have rej: "handler e req =
      (Inr (error_response ''Missing required arguments: message_id and emoji_name''), [])"
    if "message_id = JUndefined \<or> \<not> truthy emoji_name"
    using that unfolding req_def message_id_def emoji_name_def
    by (intro handler_throw) (simp add: handler_try_def)
  have acc: "handler e req =
           (case client e call of
                 Returns r \<Rightarrow> Inr (text_response (JSON_stringify r))
               | Throws err \<Rightarrow>
                   (case error_message (NumberToString e) err of
                      Inl te \<Rightarrow> Inl te
                    | Inr m \<Rightarrow> Inr (error_response m)),
               [call])"
    if "message_id \<noteq> JUndefined" "truthy emoji_name"
    using that unfolding req_def message_id_def emoji_name_def call_def
    by (intro handler_respond_invoke) (simp add: handler_try_def addReaction_def)
  have zero: "snd (handler e req) =
      [(reactions_add, [JObj [(''message_id'', JNum 0), (''emoji_name'', emoji_name)]])]"
    if "message_id = JNum 0" "truthy emoji_name"
    using acc that by (simp add: call_def)
  from rej acc zero show ?thesis by auto
qed

theorem add_reaction_validation_witness:
  "handler \<lparr>client = (\<lambda>c. Returns JNull), StringToNumber = (\<lambda>s. JNaN),
      NumberToString = show_int\<rparr>
     \<lparr>name = ''zulip_add_reaction'',
      arguments = Some [(''message_id'', JNum 0), (''emoji_name'', JStr ''thumbs_up'')]\<rparr> =
     (Inr (text_response (JStr ''null'')),
      [(reactions_add, [JObj [(''message_id'', JNum 0), (''emoji_name'', JStr ''thumbs_up'')]])])
   \<and> handler \<lparr>client = (\<lambda>c. Returns JNull), StringToNumber = (\<lambda>s. JNaN),
      NumberToString = show_int\<rparr>
     \<lparr>name = ''zulip_add_reaction'', arguments = Some [(''emoji_name'', JStr ''thumbs_up'')]\<rparr> =
     (Inr (error_response ''Missing required arguments: message_id and emoji_name''), [])
   \<and> handler \<lparr>client = (\<lambda>c. Returns JNull), StringToNumber = (\<lambda>s. JNaN),
      NumberToString = show_int\<rparr>
     \<lparr>name = ''zulip_add_reaction'',
      arguments = Some [(''message_id'', JNum 0), (''emoji_name'', JStr [])]\<rparr> =
     (Inr (error_response ''Missing required arguments: message_id and emoji_name''), [])"
  using add_reaction_validation
      [of "\<lparr>client = (\<lambda>c. Returns JNull), StringToNumber = (\<lambda>s. JNaN),
      NumberToString = show_int\<rparr>"
          "[(''message_id'', JNum 0), (''emoji_name'', JStr ''thumbs_up'')]"]
    add_reaction_validation
      [of "\<lparr>client = (\<lambda>c. Returns JNull), StringToNumber = (\<lambda>s. JNaN),
      NumberToString = show_int\<rparr>"
          "[(''emoji_name'', JStr ''thumbs_up'')]"]
    add_reaction_validation
      [of "\<lparr>client = (\<lambda>c. Returns JNull), StringToNumber = (\<lambda>s. JNaN),
      NumberToString = show_int\<rparr>"
          "[(''message_id'', JNum 0), (''emoji_name'', JStr [])]"]
  by (simp add: own_prop_def JSON_stringify_def)


section \<open>Validation of zulip\_post\_message\<close>

text \<open>
  C6. If channel\_name, topic or content of a zulip\_post\_message request is absent or not
  truthy, the response is the error response whose message names the three required
  fields, and no remote call is issued. If all three are truthy, one message-send call of
  type "stream" is issued with the three values, and the result of the handler is made
  from its outcome (the result as text, or what the catch block makes of a thrown value).
\<close>

theorem post_message_validation:
  fixes e :: env and args :: "(string \<times> jsval) list"
  defines "req \<equiv> \<lparr>name = ''zulip_post_message'', arguments = Some args\<rparr>"
  defines "channel_name \<equiv> own_prop args ''channel_name''"
  defines "topic \<equiv> own_prop args ''topic''"
  defines "body \<equiv> own_prop args ''content''"
  defines "call \<equiv> (messages_send,
      [JObj [(''to'', channel_name), (''type'', JStr ''stream''),
             (''topic'', topic), (''content'', body)]])"
  shows "(\<not> truthy channel_name \<or> \<not> truthy topic \<or> \<not> truthy body \<longrightarrow>
            handler e req =
              (Inr (error_response
                 ''Missing required arguments: channel_name, topic, and content''), []))
       \<and> (truthy channel_name \<and> truthy topic \<and> truthy body \<longrightarrow>
            handler e req =
              (case client e call of
                 Returns r \<Rightarrow> Inr (text_response (JSON_stringify r))
               | Throws err \<Rightarrow>
                   (case error_message (NumberToString e) err of
                      Inl te \<Rightarrow> Inl te
                    | Inr m \<Rightarrow> Inr (error_response m)),
               [call]))"
proof -
  have rej: "handler e req =
      (Inr (error_response ''Missing required arguments: channel_name, topic, and content''), [])"
    if "\<not> truthy channel_name \<or> \<not> truthy topic \<or> \<not> truthy body"
    using that unfolding req_def channel_name_def topic_def body_def
    by (intro handler_throw) (simp add: handler_try_def)
  have acc: "handler e req =
           (case client e call of
                 Returns r \<Rightarrow> Inr (text_response (JSON_stringify r))
               | Throws err \<Rightarrow>
                   (case error_message (NumberToString e) err of
                      Inl te \<Rightarrow> Inl te
                    | Inr m \<Rightarrow> Inr (error_response m)),
               [call])"
    if "truthy channel_name" "truthy topic" "truthy body"
    using that unfolding req_def channel_name_def topic_def body_def call_def
    by (intro handler_respond_invoke) (simp add: handler_try_def sendStreamMessage_def)
  from rej acc show ?thesis by blast
qed

theorem post_message_validation_witness:
  "handler \<lparr>client = (\<lambda>c. Returns JNull), StringToNumber = (\<lambda>s. JNaN),
      NumberToString = show_int\<rparr>
     \<lparr>name = ''zulip_post_message'', arguments = Some [(''channel_name'', JStr ''general'')]\<rparr> =
     (Inr (error_response ''Missing required arguments: channel_name, topic, and content''), [])
   \<and> handler \<lparr>client = (\<lambda>c. Returns JNull), StringToNumber = (\<lambda>s. JNaN),
      NumberToString = show_int\<rparr>
     \<lparr>name = ''zulip_post_message'',
      arguments = Some [(''channel_name'', JStr ''general''), (''topic'', JStr ''intro''),
                        (''content'', JStr ''hello'')]\<rparr> =
     (Inr (text_response (JStr ''null'')),
      [(messages_send,
        [JObj [(''to'', JStr ''general''), (''type'', JStr ''stream''),
               (''topic'', JStr ''intro''), (''content'', JStr ''hello'')]])])"
  using post_message_validation
      [of "[(''channel_name'', JStr ''general'')]"
          "\<lparr>client = (\<lambda>c. Returns JNull), StringToNumber = (\<lambda>s. JNaN),
      NumberToString = show_int\<rparr>"]
    post_message_validation
      [of "[(''channel_name'', JStr ''general''), (''topic'', JStr ''intro''),
            (''content'', JStr ''hello'')]"
          "\<lparr>client = (\<lambda>c. Returns JNull), StringToNumber = (\<lambda>s. JNaN),
      NumberToString = show_int\<rparr>"]
  by (simp add: own_prop_def JSON_stringify_def)

section \<open>Validation of zulip\_send\_direct\_message\<close>

text \<open>
  C10. A zulip\_send\_direct\_message request is rejected only when recipients or content
  is absent or not truthy. An empty recipients array is truthy: with a truthy content the
  request passes validation and one message-send call of type "private" is issued with the
  empty recipient list. Nothing checks that recipients is non-empty.
\<close>

theorem send_direct_message_validation:
  fixes e :: env and args :: "(string \<times> jsval) list"
  defines "req \<equiv> \<lparr>name = ''zulip_send_direct_message'', arguments = Some args\<rparr>"
  defines "recipients \<equiv> own_prop args ''recipients''"
  defines "body \<equiv> own_prop args ''content''"
  defines "call \<equiv> (messages_send,
      [JObj [(''to'', recipients), (''type'', JStr ''private''), (''content'', body)]])"
  shows "((handler e req =
            (Inr (error_response ''Missing required arguments: recipients and content''), []))
          = (\<not> truthy recipients \<or> \<not> truthy body))
       \<and> (truthy recipients \<and> truthy body \<longrightarrow>
            handler e req =
              (case client e call of
                 Returns r \<Rightarrow> Inr (text_response (JSON_stringify r))
               | Throws err \<Rightarrow>
                   (case error_message (NumberToString e) err of
                      Inl te \<Rightarrow> Inl te
                    | Inr m \<Rightarrow> Inr (error_response m)),
               [call]))
       \<and> (recipients = JArr [] \<and> truthy body \<longrightarrow>
            snd (handler e req) =
              [(messages_send,
                [JObj [(''to'', JArr []), (''type'', JStr ''private''), (''content'', body)]])])"
proof -
  have rej: "handler e req =
      (Inr (error_response ''Missing required arguments: recipients and content''), [])"
    if "\<not> truthy recipients \<or> \<not> truthy body"
    using that unfolding req_def recipients_def body_def
    by (intro handler_throw) (simp add: handler_try_def)
  have acc: "handler e req =
           (case client e call of
                 Returns r \<Rightarrow> Inr (text_response (JSON_stringify r))
               | Throws err \<Rightarrow>
                   (case error_message (NumberToString e) err of
                      Inl te \<Rightarrow> Inl te
                    | Inr m \<Rightarrow> Inr (error_response m)),
               [call])"
    if "truthy recipients" "truthy body"
    using that unfolding req_def recipients_def body_def call_def
    by (intro handler_respond_invoke) (simp add: handler_try_def sendDirectMessage_def)
  have empty: "snd (handler e req) =
      [(messages_send,
        [JObj [(''to'', JArr []), (''type'', JStr ''private''), (''content'', body)]])]"
    if "recipients = JArr []" "truthy body"
    using acc that by (simp add: call_def)
  from rej acc empty show ?thesis by auto
qed

theorem send_direct_message_validation_witness:
  "handler \<lparr>client = (\<lambda>c. Returns JNull), StringToNumber = (\<lambda>s. JNaN),
      NumberToString = show_int\<rparr>
     \<lparr>name = ''zulip_send_direct_message'',
      arguments = Some [(''recipients'', JArr []), (''content'', JStr ''hello'')]\<rparr> =
     (Inr (text_response (JStr ''null'')),
      [(messages_send,
        [JObj [(''to'', JArr []), (''type'', JStr ''private''), (''content'', JStr ''hello'')]])])
   \<and> handler \<lparr>client = (\<lambda>c. Returns JNull), StringToNumber = (\<lambda>s. JNaN),
      NumberToString = show_int\<rparr>
     \<lparr>name = ''zulip_send_direct_message'', arguments = Some [(''recipients'', JArr [])]\<rparr> =
     (Inr (error_response ''Missing required arguments: recipients and content''), [])"
  using send_direct_message_validation
      [of "\<lparr>client = (\<lambda>c. Returns JNull), StringToNumber = (\<lambda>s. JNaN),
      NumberToString = show_int\<rparr>"
          "[(''recipients'', JArr []), (''content'', JStr ''hello'')]"]
    send_direct_message_validation
      [of "\<lparr>client = (\<lambda>c. Returns JNull), StringToNumber = (\<lambda>s. JNaN),
      NumberToString = show_int\<rparr>"
          "[(''recipients'', JArr [])]"]
  by (simp add: own_prop_def JSON_stringify_def)

section \<open>Parameters of the stream-list call\<close>

text \<open>
  C8. For every combination of the three boolean flags, getStreams issues one stream-list
  call whose parameter object holds include\_private (as true) exactly when includePrivate
  is true, include\_web\_public (as false) exactly when includeWebPublic is false, and
  include\_subscribed (as false) exactly when includeSubscribed is false, and holds no
  other property. An omitted flag takes its default: false, true, true.
\<close>

theorem getStreams_flags:
  "\<exists>params.
     getStreams e (JBool p) (JBool w) (JBool s) =
       (client e (streams_retrieve, [JObj params]), [(streams_retrieve, [JObj params])])
     \<and> map_of params ''include_private'' = (if p then Some (JBool True) else None)
     \<and> map_of params ''include_web_public'' = (if w then None else Some (JBool False))
     \<and> map_of params ''include_subscribed'' = (if s then None else Some (JBool False))
     \<and> set (map fst params) \<subseteq> {''include_private'', ''include_web_public'', ''include_subscribed''}
     \<and> distinct (map fst params)
     \<and> getStreams e JUndefined (JBool w) (JBool s) = getStreams e (JBool False) (JBool w) (JBool s)
     \<and> getStreams e (JBool p) JUndefined (JBool s) = getStreams e (JBool p) (JBool True) (JBool s)
     \<and> getStreams e (JBool p) (JBool w) JUndefined = getStreams e (JBool p) (JBool w) (JBool True)"
proof -
  let ?params =
    "(if p then [(''include_private'', JBool True)] else []) @
     (if \<not> w then [(''include_web_public'', JBool False)] else []) @
     (if \<not> s then [(''include_subscribed'', JBool False)] else [])"
  have call: "getStreams e (JBool p) (JBool w) (JBool s) =
       (client e (streams_retrieve, [JObj ?params]), [(streams_retrieve, [JObj ?params])])"
    by (simp add: getStreams_def default_param_def invoke_def Let_def)
  have flags: "map_of ?params ''include_private'' = (if p then Some (JBool True) else None)"
      "map_of ?params ''include_web_public'' = (if w then None else Some (JBool False))"
      "map_of ?params ''include_subscribed'' = (if s then None else Some (JBool False))"
    by simp_all
  have keys: "set (map fst ?params) \<subseteq>
        {''include_private'', ''include_web_public'', ''include_subscribed''}"
      "distinct (map fst ?params)"
    by auto
  have defaults:
      "getStreams e JUndefined (JBool w) (JBool s) = getStreams e (JBool False) (JBool w) (JBool s)"
      "getStreams e (JBool p) JUndefined (JBool s) = getStreams e (JBool p) (JBool True) (JBool s)"
      "getStreams e (JBool p) (JBool w) JUndefined = getStreams e (JBool p) (JBool w) (JBool True)"
    by (simp_all add: getStreams_def default_param_def)
  from call flags keys defaults show ?thesis by blast
qed

theorem getStreams_flags_witness:
  "\<exists>params.
     getStreams \<lparr>client = (\<lambda>c. Returns JNull), StringToNumber = (\<lambda>s. JNaN),
      NumberToString = show_int\<rparr>
       (JBool True) (JBool False) (JBool True) =
       (Returns JNull, [(streams_retrieve, [JObj params])])
     \<and> map_of params ''include_private'' = Some (JBool True)
     \<and> map_of params ''include_web_public'' = Some (JBool False)
     \<and> map_of params ''include_subscribed'' = None"
  using getStreams_flags
      [of "\<lparr>client = (\<lambda>c. Returns JNull), StringToNumber = (\<lambda>s. JNaN),
      NumberToString = show_int\<rparr>" True False True]
  by fastforce

section \<open>Channel history: the split of the limit\<close>

lemma getMessages_resolved:
  assumes "client e (streams_retrieve, [JObj [(''include_private'', JBool True)]]) =
             Returns streamsResponse"
    and "streams_find streamsResponse streamName = Inr stream"
    and "truthy stream"
    and "floor_half (NumberToString e) (StringToNumber e) (default_param limit (JNum 20)) = Inr half"
  shows "getMessages e streamName topic limit anchor =
     (let params = JObj
            [(''narrow'', JSON_stringify (narrow_of streamName topic)),
             (''num_before'', half),
             (''num_after'', half),
             (''anchor'', default_param anchor (JStr ''newest''))]
      in (client e (messages_retrieve, [params]),
          [(streams_retrieve, [JObj [(''include_private'', JBool True)]]),
           (messages_retrieve, [params])]))"
  using assms by (simp add: getMessages_def getStreams_all invoke_def Let_def)

text \<open>
  C2. When the stream-list call returns and the requested stream is found in its result,
  getMessages called with stream name, topic, an integer limit and an anchor issues, after
  the stream-list call, one message-retrieve call with num\_before = num\_after =
  floor(limit / 2), the given anchor, and as narrow the JSON text of the two-part filter
  [{operator: "stream", operand: streamName}, {operator: "topic", operand: topic}]; its
  outcome is the outcome of that call. For an odd limit the two halves sum to limit - 1.
\<close>

theorem getMessages_split:
  fixes e :: env and streamName topic anchor :: string and limit :: int
  defines "list_call \<equiv> (streams_retrieve, [JObj [(''include_private'', JBool True)]])"
  defines "narrow \<equiv>
     JArr [JObj [(''operator'', JStr ''stream''), (''operand'', JStr streamName)],
           JObj [(''operator'', JStr ''topic''), (''operand'', JStr topic)]]"
  defines "retrieve_call \<equiv> (messages_retrieve,
     [JObj [(''narrow'', JStr (ser narrow)),
            (''num_before'', JNum (limit div 2)),
            (''num_after'', JNum (limit div 2)),
            (''anchor'', JStr anchor)]])"
  assumes "client e list_call = Returns streamsResponse"
    and "streams_find streamsResponse (JStr streamName) = Inr stream"
    and "truthy stream"
  shows "getMessages e (JStr streamName) (JStr topic) (JNum limit) (JStr anchor) =
           (client e retrieve_call, [list_call, retrieve_call])
       \<and> (odd limit \<longrightarrow> limit div 2 + limit div 2 = limit - 1)"
proof -
  have "getMessages e (JStr streamName) (JStr topic) (JNum limit) (JStr anchor) =
           (client e retrieve_call, [list_call, retrieve_call])"
    using assms(4-6) unfolding list_call_def retrieve_call_def narrow_def
    by (subst getMessages_resolved [where half = "JNum (limit div 2)"])
      (simp_all add: default_param_def floor_half_def JSON_stringify_def narrow_of_def Let_def)
  moreover have "odd limit \<longrightarrow> limit div 2 + limit div 2 = limit - 1"
    by presburger
  ultimately show ?thesis by simp
qed

theorem getMessages_split_witness:
  "getMessages
     \<lparr>client = (\<lambda>c. if fst c = streams_retrieve
                     then Returns (JObj [(''streams'', JArr [JObj [(''name'', JStr ''general''), (''id'', JNum 7)]])])
                     else Returns (JObj [(''messages'', JArr [])])),
      StringToNumber = (\<lambda>s. JNaN),
      NumberToString = show_int\<rparr>
     (JStr ''general'') (JStr ''intro'') (JNum 20) (JStr ''newest'') =
   (Returns (JObj [(''messages'', JArr [])]),
    [(streams_retrieve, [JObj [(''include_private'', JBool True)]]),
     (messages_retrieve,
      [JObj [(''narrow'', JStr (ser (JArr
                [JObj [(''operator'', JStr ''stream''), (''operand'', JStr ''general'')],
                 JObj [(''operator'', JStr ''topic''), (''operand'', JStr ''intro'')]]))),
             (''num_before'', JNum 10), (''num_after'', JNum 10),
             (''anchor'', JStr ''newest'')]])])
   \<and> getMessages
     \<lparr>client = (\<lambda>c. if fst c = streams_retrieve
                     then Returns (JObj [(''streams'', JArr [JObj [(''name'', JStr ''general''), (''id'', JNum 7)]])])
                     else Returns (JObj [(''messages'', JArr [])])),
      StringToNumber = (\<lambda>s. JNaN),
      NumberToString = show_int\<rparr>
     (JStr ''general'') (JStr ''intro'') (JNum 7) (JStr ''newest'') =
   (Returns (JObj [(''messages'', JArr [])]),
    [(streams_retrieve, [JObj [(''include_private'', JBool True)]]),
     (messages_retrieve,
      [JObj [(''narrow'', JStr (ser (JArr
                [JObj [(''operator'', JStr ''stream''), (''operand'', JStr ''general'')],
                 JObj [(''operator'', JStr ''topic''), (''operand'', JStr ''intro'')]]))),
             (''num_before'', JNum 3), (''num_after'', JNum 3),
             (''anchor'', JStr ''newest'')]])])"
proof -
  let ?resp = "JObj [(''streams'', JArr [JObj [(''name'', JStr ''general''), (''id'', JNum 7)]])]"
  let ?e = "\<lparr>client = (\<lambda>c. if fst c = streams_retrieve then Returns ?resp
                           else Returns (JObj [(''messages'', JArr [])])),
             StringToNumber = (\<lambda>s. JNaN),
      NumberToString = show_int\<rparr>"
  have a: "client ?e (streams_retrieve, [JObj [(''include_private'', JBool True)]]) = Returns ?resp"
    by simp
  have b: "streams_find ?resp (JStr ''general'') =
             Inr (JObj [(''name'', JStr ''general''), (''id'', JNum 7)])"
    by (simp add: streams_find_def own_prop_def)
  have c: "truthy (JObj [(''name'', JStr ''general''), (''id'', JNum 7)])"
    by simp
  show ?thesis
    using getMessages_split [OF a b c, of "''intro''" 20 "''newest''"]
      getMessages_split [OF a b c, of "''intro''" 7 "''newest''"]
    by simp
qed


section \<open>Channel history: stream resolution\<close>





section \<open>The handler and what is thrown inside it\<close>

lemma js_String_error:
  "js_String big v = Inl err \<Longrightarrow> err = cannot_convert"
  "join_elements big xs = Inl err \<Longrightarrow> err = cannot_convert"
  "join_element big v = Inl err \<Longrightarrow> err = cannot_convert"
  by (induction big v and big xs and big v rule: js_String_join_elements_join_element.induct)
    (auto split: if_splits sum.splits)

text \<open>The values that \<^verbatim>\<open>String\<close> converts: every primitive, a plain object with no own
  \<^verbatim>\<open>toString\<close> property, an array of such values.\<close>

lemma js_String_converts:
  "\<exists>s. js_String big JUndefined = Inr s" "\<exists>s. js_String big JNull = Inr s"
  "\<exists>s. js_String big (JBool b) = Inr s" "\<exists>s. js_String big (JNum n) = Inr s"
  "\<exists>s. js_String big JNaN = Inr s" "\<exists>s. js_String big (JStr t) = Inr s"
  "map_of kvs ''toString'' = None \<Longrightarrow> js_String big (JObj kvs) = Inr ''[object Object]''"
  "map_of kvs ''toString'' \<noteq> None \<Longrightarrow> js_String big (JObj kvs) = Inl cannot_convert"
  by simp_all










lemma handler_try_cases:
  "(\<exists>m. handler_try e req = throw_Error m)
   \<or> (\<exists>ep as. handler_try e req = respond (invoke e ep as))
   \<or> (\<exists>streamName topic limit anchor.
         handler_try e req = respond (getMessages e streamName topic limit anchor))"
proof (cases "arguments req")
  case None
  then have "handler_try e req = throw_Error ''No arguments provided''"
    by (simp add: handler_try_def)
  then show ?thesis by blast
next
  case (Some args)
  have inv: "\<exists>ep' as'. respond (invoke e ep as) = respond (invoke e ep' as')" for ep as
    by blast
  have ex: "\<exists>m'. throw_Error m = throw_Error m'" for m
    by blast
  show ?thesis
    using Some inv ex unfolding handler_try_def
    by (simp add: getStreams_def sendStreamMessage_def sendDirectMessage_def addReaction_def
        getTopics_def subscribeToStream_def getUsers_def Let_def) blast
qed





text \<open>That is the only way out of the handler: the try block threw a value that is not an
  Error and that \<^verbatim>\<open>String\<close> does not convert.\<close>

lemma handler_escapes_iff:
  "(\<exists>err cs. handler e req = (Inl err, cs)) =
   (\<exists>v cs. handler_try e req = (Inl (JsValue v), cs)
      \<and> js_String (NumberToString e) v = Inl cannot_convert)"
proof (cases "handler_try e req")
  case (Pair r0 cs)
  show ?thesis
  proof (cases r0)
    case (Inl err)
    show ?thesis
    proof (cases err)
      case (JsError m)
      then show ?thesis
        using Pair Inl by (simp add: handler_def error_message_def)
    next
      case (JsValue v)
      show ?thesis
      proof (cases "js_String (NumberToString e) v")
        case (Inl te)
        then have "te = cannot_convert"
          by (rule js_String_error(1))
        then show ?thesis
          using Pair \<open>r0 = Inl err\<close> JsValue Inl by (simp add: handler_def error_message_def)
      next
        case (Inr s)
        then show ?thesis
          using Pair \<open>r0 = Inl err\<close> JsValue by (simp add: handler_def error_message_def)
      qed
    qed
  next
    case (Inr r)
    then show ?thesis
      using Pair by (simp add: handler_def)
  qed
qed




section \<open>Decimal digits\<close>

lemma char_of_nat_eq: "(char_of (m::nat) = c) = (m mod 256 = of_char c)"
  by (simp add: char_of_eq_iff take_bit_eq_mod)

lemma digit_char_is_digit: "d < 10 \<Longrightarrow> is_digit (digit_char d)"
  by (simp add: is_digit_def digit_char_def)

lemma digit_val_digit_char: "d < 10 \<Longrightarrow> digit_val (digit_char d) = d"
  by (simp add: digit_val_def digit_char_def)

lemma show_nat_nonempty: "show_nat n \<noteq> []"
  by (subst show_nat.simps) simp

lemma show_nat_digits: "c \<in> set (show_nat n) \<Longrightarrow> is_digit c"
proof (induction n rule: show_nat.induct)
  case (1 n)
  then show ?case
    by (subst (asm) (2) show_nat.simps) (auto simp: digit_char_is_digit split: if_splits)
qed

lemma read_nat_snoc: "read_nat (ds @ [c]) = 10 * read_nat ds + digit_val c"
  by (simp add: read_nat_def)

lemma read_nat_show_nat: "read_nat (show_nat n) = n"
proof (induction n rule: show_nat.induct)
  case (1 n)
  show ?case
  proof (cases "n < 10")
    case True
    then show ?thesis
      by (subst show_nat.simps) (simp add: read_nat_def digit_val_digit_char)
  next
    case False
    then show ?thesis
      using 1 by (subst show_nat.simps) (simp add: read_nat_snoc digit_val_digit_char)
  qed
qed

lemma show_nat_hd: "0 < n \<Longrightarrow> hd (show_nat n) \<noteq> CHR ''0''"
proof (induction n rule: show_nat.induct)
  case (1 n)
  show ?case
  proof (cases "n < 10")
    case True
    then show ?thesis
      using 1(2) by (subst show_nat.simps) (simp add: digit_char_def char_of_nat_eq)
  next
    case False
    then have "hd (show_nat (n div 10)) \<noteq> CHR ''0''"
      using 1 by simp
    then show ?thesis
      using False by (subst show_nat.simps) (simp add: show_nat_nonempty)
  qed
qed

lemma show_nat_zero: "show_nat 0 = ''0''"
  by (subst show_nat.simps) (simp add: digit_char_def char_of_nat_eq)

lemma show_nat_leading: "\<not> (1 < length (show_nat n) \<and> hd (show_nat n) = CHR ''0'')"
proof (cases "n = 0")
  case True
  then show ?thesis by (simp add: show_nat_zero)
next
  case False
  then show ?thesis using show_nat_hd [of n] by simp
qed

lemma takeWhile_digits:
  assumes "rest = [] \<or> \<not> is_digit (hd rest)"
  shows "takeWhile is_digit (show_nat n @ rest) = show_nat n"
    and "dropWhile is_digit (show_nat n @ rest) = rest"
proof -
  have all: "\<forall>c \<in> set (show_nat n). is_digit c"
    using show_nat_digits by blast
  have stop: "takeWhile is_digit rest = []" "dropWhile is_digit rest = rest"
    using assms by (cases rest; simp)+
  show "takeWhile is_digit (show_nat n @ rest) = show_nat n"
    using all stop by (simp add: takeWhile_append2)
  show "dropWhile is_digit (show_nat n @ rest) = rest"
    using all stop by (simp add: dropWhile_append2)
qed

lemma show_nat_hd_not_minus: "hd (show_nat n) \<noteq> CHR ''-''"
proof -
  have "hd (show_nat n) \<in> set (show_nat n)"
    using show_nat_nonempty by simp
  then have "is_digit (hd (show_nat n))"
    by (rule show_nat_digits)
  then show ?thesis
    by (auto simp: is_digit_def)
qed

lemma parse_number_show_int:
  assumes "delimited rest"
  shows "parse_number (show_int i @ rest) = Some (JNum i, rest)"
proof -
  have stop: "rest = [] \<or> \<not> is_digit (hd rest)"
    using assms by (auto simp: delimited_def is_digit_def)
  have frac: "\<not> (rest \<noteq> [] \<and> hd rest \<in> set ''.eE'')"
    using assms by (auto simp: delimited_def)
  show ?thesis
  proof (cases "i < 0")
    case True
    then have "read_nat (show_nat (nat (- i))) \<noteq> 0"
      by (simp add: read_nat_show_nat)
    then show ?thesis
      using True frac show_nat_leading [of "nat (- i)"]
      by (simp add: parse_number_def show_int_def takeWhile_digits [OF stop]
          show_nat_nonempty read_nat_show_nat Let_def)
  next
    case False
    then show ?thesis
      using frac show_nat_leading [of "nat i"] show_nat_hd_not_minus [of "nat i"]
      by (simp add: parse_number_def show_int_def takeWhile_digits [OF stop]
          show_nat_nonempty read_nat_show_nat Let_def)
  qed
qed

section \<open>Quoted strings\<close>

lemma hex_val_hex_digit: "d < 16 \<Longrightarrow> hex_val (hex_digit d) = Some d"
  by (simp add: hex_val_def hex_digit_def Let_def)

lemma hex4_control:
  assumes "of_char c < (32::nat)"
  shows "hex4 (CHR ''0'') (CHR ''0'') (hex_digit (of_char c div 16)) (hex_digit (of_char c mod 16))
           = Some c"
proof -
  have "(of_char c :: nat) div 16 < 16"
    using assms by simp
  then show ?thesis
    by (simp add: hex4_def hex_val_hex_digit) (simp add: hex_val_def)
qed

lemma parse_quote_char:
  "parse_string_chars (quote_char c @ t) = cons_result c (parse_string_chars t)"
proof -
  consider (special) "c \<in> {CHR 0x08, CHR 0x09, CHR 0x0A, CHR 0x0C, CHR 0x0D, dquote, backslash}"
    | (control) "c \<notin> {CHR 0x08, CHR 0x09, CHR 0x0A, CHR 0x0C, CHR 0x0D, dquote, backslash}"
        "of_char c < (32::nat)"
    | (plain) "c \<notin> {CHR 0x08, CHR 0x09, CHR 0x0A, CHR 0x0C, CHR 0x0D, dquote, backslash}"
        "\<not> of_char c < (32::nat)"
    by blast
  then show ?thesis
  proof cases
    case special
    then show ?thesis
      by (auto simp: quote_char_def unescape_def dquote_def backslash_def)
  next
    case control
    then show ?thesis
      using hex4_control [of c]
      by (simp add: quote_char_def) (simp add: dquote_def backslash_def)
  next
    case plain
    then show ?thesis
      by (simp add: quote_char_def)
  qed
qed

lemma parse_string_chars_quote:
  "parse_string_chars (concat (map quote_char s) @ dquote # rest) = Some (s, rest)"
  by (induction s) (simp_all add: parse_quote_char cons_result_def)

section \<open>Decoding an encoded value\<close>

lemma show_int_first:
  "\<exists>c cs. show_int i = c # cs \<and> (c = CHR ''-'' \<or> is_digit c)"
proof (cases "i < 0")
  case True
  then show ?thesis by (simp add: show_int_def)
next
  case False
  obtain c cs where cs: "show_nat (nat i) = c # cs"
    using show_nat_nonempty [of "nat i"] by (cases "show_nat (nat i)") auto
  then have "is_digit c"
    using show_nat_digits [of c "nat i"] by simp
  then show ?thesis
    using False cs by (simp add: show_int_def)
qed

lemma parse_value_number:
  "parse_value (Suc n) (show_int i @ rest) = parse_number (show_int i @ rest)"
proof -
  obtain c cs where c: "show_int i = c # cs" "c = CHR ''-'' \<or> is_digit c"
    using show_int_first by blast
  have "c \<noteq> CHR ''n''" "c \<noteq> CHR ''t''" "c \<noteq> CHR ''f''" "c \<noteq> dquote"
      "c \<noteq> CHR ''[''" "c \<noteq> CHR ''{''"
    using c(2) by (auto simp: is_digit_def dquote_def)
  then show ?thesis
    using c(1) by simp
qed

lemma parse_value_null: "parse_value (Suc n) (''null'' @ rest) = Some (JNull, rest)"
  by (simp add: parse_literal_def)

lemma parse_value_bool:
  "parse_value (Suc n) ((if b then ''true'' else ''false'') @ rest) = Some (JBool b, rest)"
  by (simp add: parse_literal_def)

lemma parse_value_string: "parse_value (Suc n) (quote s @ rest) = Some (JStr s, rest)"
  by (simp add: quote_def parse_string_chars_quote) (simp add: dquote_def)

lemma parse_value_empty_array: "parse_value (Suc n) (''[]'' @ rest) = Some (JArr [], rest)"
  by (simp add: dquote_def)

lemma parse_value_empty_object: "parse_value (Suc n) (''{}'' @ rest) = Some (JObj [], rest)"
  by (simp add: dquote_def)

lemma parse_value_array:
  assumes "parse_elements n (c # cs) = Some (xs, rest)" and "c \<noteq> CHR '']''"
  shows "parse_value (Suc n) (CHR ''['' # c # cs) = Some (JArr xs, rest)"
  using assms by (simp add: dquote_def)

lemma parse_value_object:
  assumes "parse_members n (c # cs) = Some (kvs, rest)" and "c \<noteq> CHR ''}''"
  shows "parse_value (Suc n) (CHR ''{'' # c # cs) = Some (JObj kvs, rest)"
  using assms by (simp add: dquote_def)

lemma parse_elements_last:
  assumes "parse_value n s = Some (x, CHR '']'' # rest)"
  shows "parse_elements (Suc n) s = Some ([x], rest)"
  using assms by simp

lemma parse_elements_more:
  assumes "parse_value n s = Some (x, CHR '','' # t)"
    and "parse_elements n t = Some (xs, rest)"
  shows "parse_elements (Suc n) s = Some (x # xs, rest)"
  using assms by (simp add: cons_result_def)

lemma parse_members_last:
  assumes "parse_value n s = Some (v, CHR ''}'' # rest)"
  shows "parse_members (Suc n) (quote k @ CHR '':'' # s) = Some ([(k, v)], rest)"
  using assms by (simp add: quote_def parse_string_chars_quote)

lemma parse_members_more:
  assumes "parse_value n s = Some (v, CHR '','' # t)"
    and "parse_members n t = Some (kvs, rest)"
  shows "parse_members (Suc n) (quote k @ CHR '':'' # s) = Some ((k, v) # kvs, rest)"
  using assms by (simp add: quote_def parse_string_chars_quote cons_result_def)

declare parse_value.simps(2) [simp del] parse_elements.simps(2) [simp del]
  parse_members.simps(2) [simp del]

lemma ser_first: "\<exists>c cs. ser v = c # cs \<and> c \<noteq> CHR '']''"
proof (cases v)
  case (JNum i)
  then show ?thesis
    using show_int_first [of i] by (auto simp: is_digit_def)
qed (auto simp: quote_def dquote_def)

lemma ser_length: "0 < length (ser v)"
  using ser_first [of v] by auto

lemma json_members_defined:
  "json_members kvs \<Longrightarrow> list_all (\<lambda>m. snd m = JUndefined) kvs = (kvs = [])"
  by (cases kvs) auto

lemma delimited_simps:
  "delimited []" "delimited (CHR '','' # t)" "delimited (CHR '']'' # t)"
  "delimited (CHR ''}'' # t)"
  by (simp_all add: delimited_def)

lemma parse_ser:
  "json_value v \<Longrightarrow> length (ser v) \<le> n \<Longrightarrow> delimited rest \<Longrightarrow>
     parse_value n (ser v @ rest) = Some (v, rest)"
  "json_elements xs \<Longrightarrow> xs \<noteq> [] \<Longrightarrow> length (ser_elements xs) < n \<Longrightarrow>
     parse_elements n (ser_elements xs @ CHR '']'' # rest) = Some (xs, rest)"
  "json_members kvs \<Longrightarrow> kvs \<noteq> [] \<Longrightarrow> length (ser_members kvs) < n \<Longrightarrow>
     parse_members n (ser_members kvs @ CHR ''}'' # rest) = Some (kvs, rest)"
proof (induction v and xs and kvs arbitrary: n rest and n rest and n rest
    rule: ser_ser_elements_ser_members.induct)
  case 1
  then show ?case by simp
next
  case 2
  then obtain m where "n = Suc m" by (cases n) auto
  then show ?case by (simp only: ser.simps parse_value_null)
next
  case (3 b)
  then obtain m where "n = Suc m" by (cases n) (auto split: if_splits)
  then show ?case by (simp only: ser.simps parse_value_bool)
next
  case (4 i)
  then obtain m where "n = Suc m"
    using ser_length [of "JNum i"] by (cases n) auto
  then show ?case
    using "4.prems"(3) by (simp only: ser.simps parse_value_number parse_number_show_int)
next
  case 5
  then show ?case by simp
next
  case (6 s)
  then obtain m where "n = Suc m" by (cases n) (auto simp: quote_def)
  then show ?case by (simp only: ser.simps parse_value_string)
next
  case (7 xs)
  then obtain m where n: "n = Suc m" by (cases n) auto
  show ?case
  proof (cases xs)
    case Nil
    then show ?thesis
      using n parse_value_empty_array [of m rest] by simp
  next
    case (Cons y ys)
    obtain c cs where c: "ser y = c # cs" "c \<noteq> CHR '']''"
      using ser_first by blast
    have len: "length (ser_elements xs) < m"
      using "7.prems"(2) n by simp
    have p: "parse_elements m (ser_elements xs @ CHR '']'' # rest) = Some (xs, rest)"
      using "7.prems"(1) Cons len by (intro "7.IH") auto
    obtain t where t: "ser_elements xs @ CHR '']'' # rest = c # t"
      using Cons c by simp
    have "parse_value (Suc m) (CHR ''['' # c # t) = Some (JArr xs, rest)"
      using p c(2) unfolding t by (rule parse_value_array)
    then show ?thesis
      using n t by simp
  qed
next
  case (8 kvs)
  then obtain m where n: "n = Suc m" by (cases n) auto
  show ?case
  proof (cases kvs)
    case Nil
    then show ?thesis
      using n parse_value_empty_object [of m rest] by simp
  next
    case (Cons kv kvs')
    then have u: "snd kv \<noteq> JUndefined"
      using "8.prems"(1) by auto
    have len: "length (ser_members kvs) < m"
      using "8.prems"(2) n by simp
    have p: "parse_members m (ser_members kvs @ CHR ''}'' # rest) = Some (kvs, rest)"
      using "8.prems"(1) Cons len by (intro "8.IH") auto
    obtain t where t: "ser_members kvs @ CHR ''}'' # rest = dquote # t"
      using Cons u by (simp add: quote_def)
    have "parse_value (Suc m) (CHR ''{'' # dquote # t) = Some (JObj kvs, rest)"
      using p unfolding t by (rule parse_value_object) (simp add: dquote_def)
    then show ?thesis
      using n t by simp
  qed
next
  case 9
  then show ?case by simp
next
  case (10 x xs)
  then obtain m where n: "n = Suc m" by (cases n) auto
  have jx: "json_value x" and jxs: "json_elements xs"
    using "10.prems"(1) by simp_all
  show ?case
  proof (cases "xs = []")
    case True
    have "parse_value m (ser x @ CHR '']'' # rest) = Some (x, CHR '']'' # rest)"
      using jx "10.prems"(3) n True by (intro "10.IH"(1)) (simp_all add: delimited_simps)
    from parse_elements_last [OF this] show ?thesis
      using n True by simp
  next
    case False
    let ?t = "ser_elements xs @ CHR '']'' # rest"
    have "parse_value m (ser x @ CHR '','' # ?t) = Some (x, CHR '','' # ?t)"
      using jx "10.prems"(3) n False by (intro "10.IH"(1)) (simp_all add: delimited_simps)
    moreover have "parse_elements m ?t = Some (xs, rest)"
      using jxs "10.prems"(3) n False ser_length [of x] by (intro "10.IH"(2)) simp_all
    ultimately have "parse_elements (Suc m) (ser x @ CHR '','' # ?t) = Some (x # xs, rest)"
      by (rule parse_elements_more)
    then show ?thesis
      using n False by simp
  qed
next
  case 11
  then show ?case by simp
next
  case (12 kv kvs)
  then obtain m where n: "n = Suc m" by (cases n) auto
  have u: "snd kv \<noteq> JUndefined" and jv: "json_value (snd kv)" and jkvs: "json_members kvs"
    using "12.prems"(1) by auto
  note empty = json_members_defined [OF jkvs]
  show ?case
  proof (cases "kvs = []")
    case True
    have "parse_value m (ser (snd kv) @ CHR ''}'' # rest) = Some (snd kv, CHR ''}'' # rest)"
      using jv u "12.prems"(3) n True
      by (intro "12.IH"(2)) (simp_all add: delimited_simps)
    from parse_members_last [OF this, of "fst kv"] show ?thesis
      using n True u by simp
  next
    case False
    let ?t = "ser_members kvs @ CHR ''}'' # rest"
    have "parse_value m (ser (snd kv) @ CHR '','' # ?t) = Some (snd kv, CHR '','' # ?t)"
      using jv u "12.prems"(3) n False empty
      by (intro "12.IH"(2)) (simp_all add: delimited_simps)
    moreover have "parse_members m ?t = Some (kvs, rest)"
      using jkvs u "12.prems"(3) n False empty ser_length [of "snd kv"]
      by (intro "12.IH"(3)) simp_all
    ultimately have "parse_members (Suc m) (quote (fst kv) @ CHR '':'' # ser (snd kv) @ CHR '','' # ?t)
        = Some ((fst kv, snd kv) # kvs, rest)"
      by (rule parse_members_more)
    then show ?thesis
      using n False u empty by simp
  qed
qed

lemma JSON_parse_ser: "json_value v \<Longrightarrow> JSON_parse (ser v) = Some v"
  using parse_ser(1) [of v "length (ser v)" "[]"] by (simp add: JSON_parse_def delimited_simps)

section \<open>Round trip of a successful result\<close>

lemma getMessages_returns:
  "getMessages e streamName topic limit anchor = (Returns R, cs) \<Longrightarrow>
     cs \<noteq> [] \<and> client e (last cs) = Returns R"
  by (auto simp: getMessages_def getStreams_all invoke_def Let_def
      split: outcome.splits sum.splits if_splits)

lemma respond_returns:
  assumes "respond (out, cs) = (Inr resp, cs')"
  shows "cs' = cs \<and> (\<exists>R. out = Returns R \<and> resp = text_response (JSON_stringify R))"
  using assms by (auto simp: respond_def split: outcome.splits)

lemma handler_try_returns:
  assumes "handler_try e req = (Inr resp, cs)"
  shows "cs \<noteq> [] \<and> (\<exists>R. client e (last cs) = Returns R \<and> resp = text_response (JSON_stringify R))"
proof -
  consider (throw) m where "handler_try e req = throw_Error m"
    | (invoke) ep as where "handler_try e req = respond (invoke e ep as)"
    | (history) streamName topic limit anchor where
        "handler_try e req = respond (getMessages e streamName topic limit anchor)"
    using handler_try_cases [of e req] by blast
  then show ?thesis
  proof cases
    case throw
    then show ?thesis using assms by (simp add: throw_Error_def)
  next
    case invoke
    then show ?thesis
      using assms respond_returns [of "client e (ep, as)" "[(ep, as)]" resp cs]
      by (auto simp: invoke_def)
  next
    case history
    obtain out cs0 where f: "getMessages e streamName topic limit anchor = (out, cs0)"
      by (cases "getMessages e streamName topic limit anchor")
    then show ?thesis
      using assms history respond_returns [of out cs0 resp cs] getMessages_returns [of e _ _ _ _ _ cs0]
      by auto
  qed
qed

text \<open>
  C7. Whenever the try block of the handler returns (for any of the tools, the facade call
  succeeded), the value R that the facade returned is the value returned by the last remote
  call, and the response is {content: [{type: "text", text: t}]} with the single item's text
  t = JSON.stringify(R). When R is a JSON value (as every reply decoded by the client is),
  t is a string, the JSON encoding of R, and decoding it gives back R itself.
\<close>

theorem response_round_trip:
  assumes "fst (handler_try e req) = Inr resp"
  shows "\<exists>R cs. cs \<noteq> [] \<and> client e (last cs) = Returns R
           \<and> handler e req =
               (Inr \<lparr>content = [\<lparr>type = ''text'', text' = JSON_stringify R\<rparr>]\<rparr>, cs)
           \<and> (json_value R \<longrightarrow>
                 JSON_stringify R = JStr (ser R) \<and> JSON_parse (ser R) = Some R)"
proof -
  obtain cs where t: "handler_try e req = (Inr resp, cs)"
    using assms by (cases "handler_try e req") simp
  then obtain R where R: "cs \<noteq> []" "client e (last cs) = Returns R"
      "resp = text_response (JSON_stringify R)"
    using handler_try_returns by blast
  have "handler e req = (Inr \<lparr>content = [\<lparr>type = ''text'', text' = JSON_stringify R\<rparr>]\<rparr>, cs)"
    using t R(3) by (simp add: handler_def text_response_def)
  moreover have "JSON_stringify R = JStr (ser R) \<and> JSON_parse (ser R) = Some R" if "json_value R"
    using that JSON_parse_ser [of R] by (cases R) (simp_all add: JSON_stringify_def)
  ultimately show ?thesis
    using R(1,2) by blast
qed

theorem response_round_trip_witness:
  "\<exists>cs. handler
       \<lparr>client = (\<lambda>c. Returns (JObj [(''result'', JStr ''success''), (''id'', JNum 42)])),
        StringToNumber = (\<lambda>s. JNaN),
      NumberToString = show_int\<rparr>
       \<lparr>name = ''zulip_post_message'',
        arguments = Some [(''channel_name'', JStr ''general''), (''topic'', JStr ''intro''),
                          (''content'', JStr ''hello'')]\<rparr> =
       (Inr \<lparr>content = [\<lparr>type = ''text'',
               text' = JStr (ser (JObj [(''result'', JStr ''success''), (''id'', JNum 42)]))\<rparr>]\<rparr>, cs)
     \<and> JSON_parse (ser (JObj [(''result'', JStr ''success''), (''id'', JNum 42)])) =
         Some (JObj [(''result'', JStr ''success''), (''id'', JNum 42)])"
proof -
  let ?R = "JObj [(''result'', JStr ''success''), (''id'', JNum 42)]"
  let ?e = "\<lparr>client = (\<lambda>c. Returns ?R), StringToNumber = (\<lambda>s. JNaN),
      NumberToString = show_int\<rparr>"
  let ?req = "\<lparr>name = ''zulip_post_message'',
        arguments = Some [(''channel_name'', JStr ''general''), (''topic'', JStr ''intro''),
                          (''content'', JStr ''hello'')]\<rparr>"
  have ok: "fst (handler_try ?e ?req) = Inr (text_response (JSON_stringify ?R))"
    by (simp add: handler_try_def own_prop_def sendStreamMessage_def invoke_def respond_def)
  have j: "json_value ?R"
    by simp
  show ?thesis
    using response_round_trip [OF ok] j by (auto simp: JSON_stringify_def)
qed

end
